theory Spec2Isabelle
  imports Main "HOL-Library.Sublist"
begin

section \<open>Host-level exceptions\<close>

text \<open>
  The runtime signals a violation by throwing one of two standard exception classes,
  each built from a string literal. \<open>std::runtime_error\<close> is what the spec calls
  \<open>NullReferenceError\<close>, \<open>std::out_of_range\<close> is its \<open>IndexOutOfRangeError\<close>.
  A function that may throw returns \<open>exception + 'a\<close>, with \<open>Inl\<close> the thrown exception.
\<close>

datatype exception = runtime_error string | out_of_range string

fun what :: "exception \<Rightarrow> string" where
  "what (runtime_error msg) = msg"
| "what (out_of_range msg) = msg"

section \<open>Output utility\<close>

text \<open>
  \<open>std::cout\<close> is the sequence of characters inserted so far. The insertion operator of
  each argument type belongs to the standard library; it is the parameter \<open>repr\<close>, the
  textual representation of a value. A heterogeneous argument pack is a list over a sum
  of the argument types. \<open>std::endl\<close> inserts a newline (and flushes, which adds no
  character).
\<close>

type_synonym ostream = string

definition put :: "ostream \<Rightarrow> string \<Rightarrow> ostream" where
  "put out s = out @ s"

definition endl :: "ostream \<Rightarrow> ostream" where
  "endl out = out @ [CHR 0x0A]"

definition print_item :: "('a \<Rightarrow> string) \<Rightarrow> 'a \<Rightarrow> ostream \<Rightarrow> ostream" where
  "print_item repr val out = put out (repr val)"

text \<open>
  \<open>println(T first, Args... args)\<close>: the pack \<open>args\<close> is the list; the
  \<open>if constexpr\<close> on its size is the case distinction on the list.
\<close>

fun println :: "('a \<Rightarrow> string) \<Rightarrow> 'a \<Rightarrow> 'a list \<Rightarrow> ostream \<Rightarrow> ostream" where
  "println repr first [] out = endl (put out (repr first))"
| "println repr first (a # args) out =
     println repr a args (put (put out (repr first)) '' '')"

text \<open>The overload \<open>println()\<close> without arguments.\<close>

definition println0 :: "ostream \<Rightarrow> ostream" where
  "println0 out = endl out"

section \<open>Checked indirection: \<open>Ptr\<close>\<close>

text \<open>
  A raw pointer \<open>T*\<close> is null or an address. The objects of type \<open>T\<close> that are alive
  are a partial map from addresses; reading through a pointer that is null or whose
  referent is not alive is undefined behaviour, the value \<open>None\<close> of \<open>load\<close>.
\<close>

datatype pointer = nullptr | Addr nat

type_synonym 'a heap = "nat \<rightharpoonup> 'a"

fun load :: "'a heap \<Rightarrow> pointer \<Rightarrow> 'a option" where
  "load h nullptr = None"
| "load h (Addr a) = h a"

record Ptr =
  data :: pointer

text \<open>\<open>Ptr()\<close>: the member initialiser only, an empty body.\<close>

definition Ptr_ctor0 :: "exception + Ptr" where
  "Ptr_ctor0 = Inr \<lparr>data = nullptr\<rparr>"

text \<open>
  \<open>Ptr(T* p)\<close>: the member initialiser runs first, then the body throws on null. A
  constructor that throws leaves no object: the result is the exception alone.
\<close>

definition Ptr_ctor :: "pointer \<Rightarrow> exception + Ptr" where
  "Ptr_ctor p =
     (let this = \<lparr>data = p\<rparr>
      in if p = nullptr then Inl (runtime_error ''Fax-lang: Null pointer access attempt'')
         else Inr this)"

text \<open>
  The member functions, each returning its result together with the object after the
  call. \<open>operator*\<close> returns the lvalue \<open>*data\<close>, here the pointer designating it, read
  with \<open>load\<close>; it does not check. \<open>is_null\<close> is \<open>const\<close>.
\<close>

definition star :: "Ptr \<Rightarrow> pointer \<times> Ptr" where
  "star this = (data this, this)"

definition arrow :: "Ptr \<Rightarrow> pointer \<times> Ptr" where
  "arrow this = (data this, this)"

definition get :: "Ptr \<Rightarrow> pointer \<times> Ptr" where
  "get this = (data this, this)"

definition is_null :: "Ptr \<Rightarrow> bool" where
  "is_null this = (data this = nullptr)"

text \<open>
  The class declares no copy or move operation, so the language supplies them
  memberwise: the assignment \<open>p = q\<close> stores the \<open>data\<close> of \<open>q\<close> in \<open>p\<close>. Generated code
  that declares a \<open>Ptr\<close> first and assigns it later goes through this operator.
\<close>

definition assign :: "Ptr \<Rightarrow> Ptr \<Rightarrow> Ptr" where
  "assign this other = this\<lparr>data := data other\<rparr>"

text \<open>
  An operation on a \<open>Ptr\<close> object and the object it leaves: a call of one of the four
  member functions the class declares, or an assignment from another wrapper.
\<close>

datatype member = Star | Arrow | Get | Is_null | Assign Ptr

fun call :: "member \<Rightarrow> Ptr \<Rightarrow> Ptr" where
  "call Star this = snd (star this)"
| "call Arrow this = snd (arrow this)"
| "call Get this = snd (get this)"
| "call Is_null this = this"
| "call (Assign other) this = assign this other"

fun declared :: "member \<Rightarrow> bool" where
  "declared (Assign other) = False"
| "declared m = True"

section \<open>Checked sequence: \<open>Array\<close>\<close>

text \<open>
  What an operation of the sequence comes to: the program that uses it does not compile
  (\<open>Ill_formed\<close>), it throws, it returns, or its behaviour is undefined.
\<close>

datatype 'r outcome = Ill_formed | Throws exception | Returns 'r | Undefined

text \<open>
  \<open>Array<T>\<close> derives from \<open>std::vector<T>\<close> and adds no member: it is the vector. A
  vector is the list of its elements in insertion order, together with its element
  type as far as the library distinguishes it: \<open>std::vector<bool>\<close> is a specialisation
  that packs bits and has no \<open>bool\<close> object to refer to; every other element type
  uses the primary template.

  \<open>size_t\<close> is an unsigned integer that the code only compares with the size, so an
  index is a natural number.
\<close>

datatype elem_type = T_bool | T_other

datatype 'a vector = Vector (value_type: elem_type) (elems: "'a list")

type_synonym 'a Array = "'a vector"

definition vector_size :: "'a vector \<Rightarrow> nat" where
  "vector_size this = length (elems this)"

definition push_back :: "'a vector \<Rightarrow> 'a \<Rightarrow> 'a vector" where
  "push_back this v = Vector (value_type this) (elems this @ [v])"

text \<open>
  \<open>std::vector<T>::at\<close> checks the range itself and throws \<open>std::out_of_range\<close> with a
  message of the standard library, not of this runtime (its text differs between
  library implementations and is abbreviated here). In range, the call expression is
  \<^item> for the primary template, on both overloads, an lvalue: the element at the position;
  \<^item> for \<open>std::vector<bool>\<close>, non-const overload, a temporary proxy object
    (\<open>std::vector<bool>::reference\<close>) for the bit at the position;
  \<^item> for \<open>std::vector<bool>\<close>, const overload, a temporary \<open>bool\<close> holding the value.
\<close>

datatype 'a at_value = Lvalue nat | Proxy nat | Prvalue 'a

definition vector_at :: "'a vector \<Rightarrow> nat \<Rightarrow> 'a at_value outcome" where
  "vector_at this n =
     (if n \<ge> vector_size this then Throws (out_of_range ''vector::_M_range_check'')
      else case value_type this of
             T_other \<Rightarrow> Returns (Lvalue n)
           | T_bool \<Rightarrow> Returns (Proxy n))"

definition vector_at_const :: "'a vector \<Rightarrow> nat \<Rightarrow> 'a at_value outcome" where
  "vector_at_const this n =
     (if n \<ge> vector_size this then Throws (out_of_range ''vector::_M_range_check'')
      else case value_type this of
             T_other \<Rightarrow> Returns (Lvalue n)
           | T_bool \<Rightarrow> Returns (Prvalue (elems this ! n)))"

text \<open>
  A reference returned by \<open>operator[]\<close>: to the element at a position of the vector, or
  to a temporary that the \<open>return\<close> statement has already destroyed.
\<close>

datatype reference = Elem nat | Dangling

text \<open>
  \<open>T& operator[](size_t index)\<close>. For \<open>T = bool\<close> the statement \<open>return at(index)\<close>
  would bind \<open>bool&\<close> to the proxy, which the language refuses: the function does not
  compile, whatever the index.
\<close>

definition Array_subscript :: "'a Array \<Rightarrow> nat \<Rightarrow> reference outcome" where
  "Array_subscript this index =
     (if value_type this = T_bool then Ill_formed
      else if index \<ge> vector_size this
      then Throws (out_of_range ''Fax-lang: Array index out of bounds'')
      else case vector_at this index of
             Returns (Lvalue n) \<Rightarrow> Returns (Elem n)
           | Returns (Proxy n) \<Rightarrow> Ill_formed
           | Returns (Prvalue b) \<Rightarrow> Ill_formed
           | Throws e \<Rightarrow> Throws e
           | Ill_formed \<Rightarrow> Ill_formed
           | Undefined \<Rightarrow> Undefined)"

text \<open>
  \<open>const T& operator[](size_t index) const\<close>. It compiles for every element type; for
  \<open>T = bool\<close> the statement \<open>return at(index)\<close> binds \<open>const bool&\<close> to the temporary,
  which dies at the end of the statement.
\<close>

definition Array_subscript_const :: "'a Array \<Rightarrow> nat \<Rightarrow> reference outcome" where
  "Array_subscript_const this index =
     (if index \<ge> vector_size this
      then Throws (out_of_range ''Fax-lang: Array index out of bounds'')
      else case vector_at_const this index of
             Returns (Lvalue n) \<Rightarrow> Returns (Elem n)
           | Returns (Proxy n) \<Rightarrow> Returns Dangling
           | Returns (Prvalue b) \<Rightarrow> Returns Dangling
           | Throws e \<Rightarrow> Throws e
           | Ill_formed \<Rightarrow> Ill_formed
           | Undefined \<Rightarrow> Undefined)"

text \<open>
  The uses of the returned reference, as statements over the sequence: the read
  \<open>x = s[i]\<close> on a mutable and on a read-only sequence, and the write \<open>s[i] = v\<close>.
  Each returns its outcome and the sequence after the statement. Reading or writing
  through a dangling reference is undefined behaviour.
\<close>

fun read_through :: "'a Array \<Rightarrow> reference outcome \<Rightarrow> 'a outcome \<times> 'a Array" where
  "read_through s (Returns (Elem n)) = (Returns (elems s ! n), s)"
| "read_through s (Returns Dangling) = (Undefined, s)"
| "read_through s (Throws e) = (Throws e, s)"
| "read_through s Ill_formed = (Ill_formed, s)"
| "read_through s Undefined = (Undefined, s)"

fun write_through :: "'a Array \<Rightarrow> 'a \<Rightarrow> reference outcome \<Rightarrow> unit outcome \<times> 'a Array" where
  "write_through s v (Returns (Elem n)) = (Returns (), Vector (value_type s) ((elems s)[n := v]))"
| "write_through s v (Returns Dangling) = (Undefined, s)"
| "write_through s v (Throws e) = (Throws e, s)"
| "write_through s v Ill_formed = (Ill_formed, s)"
| "write_through s v Undefined = (Undefined, s)"

definition Array_read :: "'a Array \<Rightarrow> nat \<Rightarrow> 'a outcome \<times> 'a Array" where
  "Array_read s i = read_through s (Array_subscript s i)"

definition Array_read_const :: "'a Array \<Rightarrow> nat \<Rightarrow> 'a outcome \<times> 'a Array" where
  "Array_read_const s i = read_through s (Array_subscript_const s i)"

definition Array_write :: "'a Array \<Rightarrow> nat \<Rightarrow> 'a \<Rightarrow> unit outcome \<times> 'a Array" where
  "Array_write s i v = write_through s v (Array_subscript s i)"

text \<open>The empty sequence of an element type, and appending the values of a list one by one.\<close>

definition Array_empty :: "elem_type \<Rightarrow> 'a Array" where
  "Array_empty T = Vector T []"

fun push_back_all :: "'a Array \<Rightarrow> 'a list \<Rightarrow> 'a Array" where
  "push_back_all s [] = s"
| "push_back_all s (v # vs) = push_back_all (push_back s v) vs"

section \<open>Checked indirection: construction and queries\<close>

text \<open>
  C1. Constructing a \<open>Ptr\<close> from the null pointer throws the runtime error with the
  null-pointer message, and the construction yields no \<open>Ptr\<close> object at all.
\<close>

theorem Ptr_ctor_null_throws:
  "Ptr_ctor nullptr = Inl (runtime_error ''Fax-lang: Null pointer access attempt'')
   \<and> (\<forall>w. Ptr_ctor nullptr \<noteq> Inr w)"
  by (simp add: Ptr_ctor_def)

text \<open>
  C3. Constructing a \<open>Ptr\<close> from a pointer that is not null throws nothing: it yields a
  wrapper holding that pointer, and reading through \<open>operator*\<close> of the wrapper gives
  what reading through the original pointer gives, the value of its referent.
\<close>

theorem Ptr_ctor_nonnull_deref:
  assumes "p \<noteq> nullptr"
  shows "\<exists>w. Ptr_ctor p = Inr w \<and> data w = p \<and> load h (fst (star w)) = load h p"
  using assms by (simp add: Ptr_ctor_def star_def)

theorem Ptr_ctor_nonnull_deref_witness:
  "Addr 7 \<noteq> nullptr
   \<and> (\<exists>w. Ptr_ctor (Addr 7) = Inr w \<and> data w = Addr 7
          \<and> load [7 \<mapsto> (42::int)] (fst (star w)) = Some 42)"
proof -
  have h: "Addr 7 \<noteq> nullptr" by simp
  show ?thesis using h Ptr_ctor_nonnull_deref [OF h, of "[7 \<mapsto> (42::int)]"] by simp
qed

text \<open>
  C8. The constructor without arguments throws nothing and yields a wrapper holding the
  null pointer; the constructor taking a pointer is the one that throws, and it throws
  exactly on the null pointer.
\<close>

theorem Ptr_ctor0_succeeds:
  "(\<exists>w. Ptr_ctor0 = Inr w \<and> data w = nullptr)
   \<and> (\<forall>e. Ptr_ctor0 \<noteq> Inl e)
   \<and> isl (Ptr_ctor p) = (p = nullptr)"
  by (simp add: Ptr_ctor0_def Ptr_ctor_def)

text \<open>No member function that the class declares assigns the field \<open>data\<close>.\<close>

lemma call_declared_data: "declared m \<Longrightarrow> data (call m w) = data w"
  by (cases m) (simp_all add: star_def arrow_def get_def)

lemma fold_call_declared_data: "list_all declared ms \<Longrightarrow> data (fold call ms w) = data w"
  by (induction ms arbitrary: w) (simp_all add: call_declared_data)

text \<open>
  C10, as the claim states it, fails: a wrapper made from a pointer that is not null
  holds the null pointer once a wrapper made without arguments is assigned to it, and
  \<open>is_null\<close> is then true of it.
\<close>

theorem is_null_after_assign_counterexample:
  "Ptr_ctor (Addr 7) = Inr \<lparr>data = Addr 7\<rparr>
   \<and> Ptr_ctor0 = Inr \<lparr>data = nullptr\<rparr>
   \<and> is_null (fold call [Assign \<lparr>data = nullptr\<rparr>] \<lparr>data = Addr 7\<rparr>)"
  by (simp add: Ptr_ctor_def Ptr_ctor0_def is_null_def assign_def)

text \<open>
  C10, amended. \<open>is_null\<close> reports whether the held pointer, as \<open>get\<close> returns it, is
  null: it is true of a wrapper made by the constructor without arguments, false of a
  wrapper made from a pointer, and still false after any sequence of calls of the four
  member functions the class declares. An assignment replaces the held pointer: after
  it \<open>is_null\<close> reports the state of the wrapper that was assigned.
\<close>

theorem is_null_reports_data:
  "is_null v = (fst (get v) = nullptr)
   \<and> (Ptr_ctor0 = Inr w0 \<longrightarrow> is_null w0)
   \<and> (Ptr_ctor p = Inr w \<and> list_all declared ms \<longrightarrow>
        \<not> is_null w \<and> \<not> is_null (fold call ms w))
   \<and> is_null (call (Assign other) u) = is_null other"
  by (auto simp add: is_null_def get_def assign_def Ptr_ctor0_def Ptr_ctor_def
      fold_call_declared_data split: if_splits)

theorem is_null_reports_data_witness:
  "Ptr_ctor0 = Inr \<lparr>data = nullptr\<rparr> \<and> is_null \<lparr>data = nullptr\<rparr>
   \<and> Ptr_ctor (Addr 7) = Inr \<lparr>data = Addr 7\<rparr>
   \<and> list_all declared [Star, Arrow, Get, Is_null]
   \<and> \<not> is_null \<lparr>data = Addr 7\<rparr>
   \<and> \<not> is_null (fold call [Star, Arrow, Get, Is_null] \<lparr>data = Addr 7\<rparr>)
   \<and> is_null (call (Assign \<lparr>data = nullptr\<rparr>) \<lparr>data = Addr 7\<rparr>)"
  using is_null_reports_data [of "\<lparr>data = nullptr\<rparr>" "\<lparr>data = nullptr\<rparr>" "Addr 7"
      "\<lparr>data = Addr 7\<rparr>" "[Star, Arrow, Get, Is_null]" "\<lparr>data = nullptr\<rparr>"
      "\<lparr>data = Addr 7\<rparr>"]
  by (simp add: Ptr_ctor0_def Ptr_ctor_def is_null_def)

section \<open>Checked sequence: indexed access\<close>



text \<open>
  For an element type other than \<open>bool\<close> and an index below the size, the read (on
  either path) returns the element at that position and leaves the sequence as it is;
  the write succeeds, keeps the size, puts the value at that position and leaves every
  other position as it was.
\<close>

lemma Array_index_in_range:
  assumes "value_type s = T_other" and "i < vector_size s"
  shows "Array_read s i = (Returns (elems s ! i), s)
       \<and> Array_read_const s i = (Returns (elems s ! i), s)
       \<and> (\<exists>s'. Array_write s i v = (Returns (), s')
              \<and> value_type s' = value_type s
              \<and> vector_size s' = vector_size s
              \<and> elems s' ! i = v
              \<and> (\<forall>j. j \<noteq> i \<longrightarrow> elems s' ! j = elems s ! j))"
  using assms
  by (simp add: Array_read_def Array_read_const_def Array_write_def
      Array_subscript_def Array_subscript_const_def vector_at_def vector_at_const_def
      vector_size_def)

text \<open>
  C4 fails on the code for \<open>Array<bool>\<close>. On the sequence holding \<open>true, false\<close>, at
  index \<open>0\<close>, which is below the size: the read on the read-only path goes through a
  reference to a dead temporary and has no defined value, where the claim promises the
  element \<open>true\<close>; the read and the write on the mutable path do not compile.
\<close>

theorem Array_bool_index_in_range:
  "0 < vector_size (Vector T_bool [True, False])
   \<and> Array_subscript_const (Vector T_bool [True, False]) 0 = Returns Dangling
   \<and> Array_read_const (Vector T_bool [True, False]) 0 =
       (Undefined, Vector T_bool [True, False])
   \<and> Array_read (Vector T_bool [True, False]) 0 =
       (Ill_formed, Vector T_bool [True, False])
   \<and> Array_write (Vector T_bool [True, False]) 0 False =
       (Ill_formed, Vector T_bool [True, False])"
  by (simp add: Array_read_def Array_read_const_def Array_write_def
      Array_subscript_def Array_subscript_const_def vector_at_const_def vector_size_def)

text \<open>Appending one by one is list concatenation.\<close>

lemma push_back_all_append:
  "push_back_all s vs = Vector (value_type s) (elems s @ vs)"
  by (induction vs arbitrary: s) (simp_all add: push_back_def)

text \<open>
  For an element type other than \<open>bool\<close>: after appending the values \<open>vs\<close> one by one
  to the empty sequence, the reads at the indices \<open>0\<close> up to \<open>length vs - 1\<close>, on either
  path, all succeed and return the values of \<open>vs\<close> in their order.
\<close>

lemma push_back_read_back:
  "map (\<lambda>i. fst (Array_read (push_back_all (Array_empty T_other) vs) i)) [0..<length vs]
     = map Returns vs
   \<and> map (\<lambda>i. fst (Array_read_const (push_back_all (Array_empty T_other) vs) i))
       [0..<length vs]
     = map Returns vs"
  by (auto simp add: push_back_all_append Array_empty_def Array_read_def Array_read_const_def
      Array_subscript_def Array_subscript_const_def vector_at_def vector_at_const_def
      vector_size_def intro!: nth_equalityI)

text \<open>
  C7 fails on the code for \<open>Array<bool>\<close>. After appending \<open>true\<close> and \<open>false\<close> to the
  empty sequence, the sequence holds them in order, but the reads at the indices \<open>0\<close>
  and \<open>1\<close> do not return them: on the read-only path each goes through a reference to
  a dead temporary, on the mutable path they do not compile.
\<close>

theorem Array_bool_push_back_read_back:
  "push_back_all (Array_empty T_bool) [True, False] = Vector T_bool [True, False]
   \<and> map (\<lambda>i. fst (Array_read_const (push_back_all (Array_empty T_bool) [True, False]) i))
       [0..<2]
     = [Undefined, Undefined]
   \<and> map (\<lambda>i. fst (Array_read (push_back_all (Array_empty T_bool) [True, False]) i))
       [0..<2]
     = [Ill_formed, Ill_formed]"
proof -
  have s: "push_back_all (Array_empty T_bool) [True, False] = Vector T_bool [True, False]"
    by (simp add: Array_empty_def push_back_def)
  have u: "[0..<2] = [0, Suc 0]"
    by (simp add: upt_rec)
  show ?thesis
    unfolding s u
    by (simp add: Array_read_def Array_read_const_def Array_subscript_def
        Array_subscript_const_def vector_at_const_def vector_size_def)
qed

section \<open>The two violations and their messages\<close>

text \<open>
  C9. Whatever the pointer-taking constructor throws is the runtime error with the
  null-pointer message, and whatever the indexed access throws, on either path, is the
  out-of-range error with the bounds message (never the message of \<open>at\<close>). The two
  messages differ, both start with the name of the generated language, and each names
  its violation.
\<close>

theorem violation_messages:
  "(Ptr_ctor p = Inl e1 \<longrightarrow> e1 = runtime_error ''Fax-lang: Null pointer access attempt'')
   \<and> (Array_subscript s i = Throws e2 \<longrightarrow>
        e2 = out_of_range ''Fax-lang: Array index out of bounds'')
   \<and> (Array_subscript_const s i = Throws e3 \<longrightarrow>
        e3 = out_of_range ''Fax-lang: Array index out of bounds'')
   \<and> what (runtime_error ''Fax-lang: Null pointer access attempt'')
        \<noteq> what (out_of_range ''Fax-lang: Array index out of bounds'')
   \<and> sublist ''Null pointer'' ''Fax-lang: Null pointer access attempt''
   \<and> sublist ''index out of bounds'' ''Fax-lang: Array index out of bounds''
   \<and> prefix ''Fax-lang: '' ''Fax-lang: Null pointer access attempt''
   \<and> prefix ''Fax-lang: '' ''Fax-lang: Array index out of bounds''"
proof -
  have a: "Ptr_ctor p = Inl e1 \<longrightarrow>
      e1 = runtime_error ''Fax-lang: Null pointer access attempt''"
    by (auto simp add: Ptr_ctor_def split: if_splits)
  have b: "Array_subscript s i = Throws e2 \<longrightarrow>
      e2 = out_of_range ''Fax-lang: Array index out of bounds''"
    by (auto simp add: Array_subscript_def vector_at_def
        split: if_splits elem_type.splits)
  have c: "Array_subscript_const s i = Throws e3 \<longrightarrow>
      e3 = out_of_range ''Fax-lang: Array index out of bounds''"
    by (auto simp add: Array_subscript_const_def vector_at_const_def
        split: if_splits elem_type.splits)
  have d: "sublist ''Null pointer'' ''Fax-lang: Null pointer access attempt''"
    unfolding sublist_def
    by (rule exI [of _ "''Fax-lang: ''"], rule exI [of _ "'' access attempt''"]) simp
  have e: "sublist ''index out of bounds'' ''Fax-lang: Array index out of bounds''"
    unfolding sublist_def
    by (rule exI [of _ "''Fax-lang: Array ''"], rule exI [of _ "[]"]) simp
  from a b c d e show ?thesis by simp
qed

theorem violation_messages_witness:
  "Ptr_ctor nullptr = Inl (runtime_error ''Fax-lang: Null pointer access attempt'')
   \<and> Array_subscript (Vector T_other ([] :: int list)) 0 =
       Throws (out_of_range ''Fax-lang: Array index out of bounds'')
   \<and> Array_subscript_const (Vector T_other ([] :: int list)) 0 =
       Throws (out_of_range ''Fax-lang: Array index out of bounds'')"
  using violation_messages [of nullptr
      "runtime_error ''Fax-lang: Null pointer access attempt''"
      "Vector T_other ([] :: int list)" 0
      "out_of_range ''Fax-lang: Array index out of bounds''"
      "out_of_range ''Fax-lang: Array index out of bounds''"]
  by (simp add: Ptr_ctor_def Array_subscript_def Array_subscript_const_def vector_size_def)

section \<open>Output utility: the format of a line\<close>

text \<open>
  C5. A call of \<open>println\<close> with at least one argument appends to the output the
  representation of the first argument, then for each further argument, in order, one
  space and its representation, then one newline.
\<close>

theorem println_format:
  "println repr first args out =
     out @ repr first @ concat (map (\<lambda>x. '' '' @ repr x) args) @ [CHR 0x0A]"
  by (induction args arbitrary: first out) (simp_all add: put_def endl_def)

text \<open>
  C6. A call of \<open>println\<close> without arguments appends one newline to the output and
  nothing else.
\<close>

theorem println0_newline: "println0 out = out @ [CHR 0x0A]"
  by (simp add: println0_def endl_def)

end
